theory Spec2Isabelle
  imports Complex_Main "HOL-Library.Sublist"
begin

section \<open>Python strings\<close>

text \<open>
  A Python \<open>str\<close> is a sequence of Unicode code points; a code point is a natural
  number here, so that the Chinese literals of the source can be written down.
  \<open>lit\<close> turns an ASCII literal into its code points.
\<close>

type_synonym str = "nat list"

definition lit :: "string \<Rightarrow> str" where
  "lit s = map of_char s"

text \<open>The code points for which \<open>str.isspace\<close> holds; \<open>str.strip()\<close> removes exactly these.\<close>

definition isspace :: "nat \<Rightarrow> bool" where
  "isspace c \<longleftrightarrow>
     (9 \<le> c \<and> c \<le> 13) \<or> (28 \<le> c \<and> c \<le> 32) \<or> c = 133 \<or> c = 160 \<or> c = 5760 \<or>
     (8192 \<le> c \<and> c \<le> 8202) \<or> c = 8232 \<or> c = 8233 \<or> c = 8239 \<or> c = 8287 \<or> c = 12288"

definition lstrip :: "str \<Rightarrow> str" where
  "lstrip s = dropWhile isspace s"

definition rstrip :: "str \<Rightarrow> str" where
  "rstrip s = rev (dropWhile isspace (rev s))"

definition strip :: "str \<Rightarrow> str" where
  "strip s = rstrip (lstrip s)"

text \<open>\<open>s.rstrip(chars)\<close>: drop trailing characters that belong to \<open>chars\<close>.\<close>

definition rstrip_chars :: "str \<Rightarrow> str \<Rightarrow> str" where
  "rstrip_chars chars s = rev (dropWhile (\<lambda>c. c \<in> set chars) (rev s))"

definition startswith :: "str \<Rightarrow> str \<Rightarrow> bool" where
  "startswith s p = prefix p s"

text \<open>
  \<open>s.upper()\<close> maps every character through Unicode's full upper-case mapping, which
  may give several characters for one (\<open>U+00DF\<close> becomes \<open>SS\<close>). The mapping table
  is not part of the repository; it is the parameter \<open>up\<close>.
\<close>

definition upper :: "(nat \<Rightarrow> str) \<Rightarrow> str \<Rightarrow> str" where
  "upper up s = concat (map up s)"

text \<open>The mapping restricted to ASCII letters, every other code point unchanged.\<close>

definition ascii_upper :: "nat \<Rightarrow> str" where
  "ascii_upper c = (if 97 \<le> c \<and> c \<le> 122 then [c - 32] else [c])"

text \<open>\<open>s.find(sub)\<close>: the lowest index at which \<open>sub\<close> occurs, \<open>None\<close> for \<open>-1\<close>.\<close>

fun find_str :: "str \<Rightarrow> str \<Rightarrow> nat option" where
  "find_str [] sub = (if sub = [] then Some 0 else None)"
| "find_str (c # cs) sub =
     (if prefix sub (c # cs) then Some 0 else map_option Suc (find_str cs sub))"

text \<open>\<open>sub in s\<close>.\<close>

definition contains :: "str \<Rightarrow> str \<Rightarrow> bool" where
  "contains s sub \<longleftrightarrow> find_str s sub \<noteq> None"

section \<open>Exceptions and JSON values\<close>

text \<open>Every exception below is a subclass of \<open>Exception\<close>, so \<open>except Exception\<close> catches it.\<close>

datatype pyexc =
    JSONDecodeError
  | AttributeError
  | FileNotFoundError
  | DatabaseError
  | OtherException

datatype pynum = PyInt int | PyFloat real | PyInf bool | PyNaN

text \<open>
  What \<open>json.loads\<close> returns: \<open>None\<close>, \<open>bool\<close>, a number, \<open>str\<close>, \<open>list\<close> or \<open>dict\<close>. A
  \<open>dict\<close> is the list of its items; \<open>map_of\<close> looks a key up in it.
\<close>

datatype json =
    JNull
  | JBool bool
  | JNum pynum
  | JStr str
  | JArr "json list"
  | JObj "(str \<times> json) list"

text \<open>\<open>x.get(key, default)\<close>: only a \<open>dict\<close> has the method.\<close>

definition py_get :: "json \<Rightarrow> str \<Rightarrow> json \<Rightarrow> pyexc + json" where
  "py_get x key dflt =
     (case x of
        JObj d \<Rightarrow> (case map_of d key of Some v \<Rightarrow> Inr v | None \<Rightarrow> Inr dflt)
      | _ \<Rightarrow> Inl AttributeError)"

text \<open>\<open>x.strip()\<close>: only a \<open>str\<close> has the method.\<close>

definition py_strip :: "json \<Rightarrow> pyexc + str" where
  "py_strip x = (case x of JStr s \<Rightarrow> Inr (strip s) | _ \<Rightarrow> Inl AttributeError)"

section \<open>The data store and the runtime\<close>

datatype sqlval = SqlNull | SqlInt int | SqlText str | SqlDecimal int nat

text \<open>
  A fetched row: a \<open>RealDictRow\<close> (a \<open>dict\<close> from column name to value), or a row of any
  other type.
\<close>

datatype pyrow = DictRow "(str \<times> sqlval) list" | OtherRow "sqlval list"

fun is_dict :: "pyrow \<Rightarrow> bool" where
  "is_dict (DictRow _) = True"
| "is_dict (OtherRow _) = False"

fun row_fields :: "pyrow \<Rightarrow> str set" where
  "row_fields (DictRow kvs) = fst ` set kvs"
| "row_fields (OtherRow _) = {}"

text \<open>
  What the code takes from outside the repository. \<open>run_statement\<close> is the store behind
  a \<open>RealDictCursor\<close>: \<open>cursor.execute(query, params)\<close> followed by
  \<open>cursor.fetchall()\<close>, on a store whose state is \<open>'db\<close>; it gives the fetched rows,
  each a dictionary from column name to value, or raises. \<open>call_deepseek_api\<close> is the
  HTTP exchange, which gives the text of the model's answer or \<open>None\<close>.
  \<open>search_query\<close> is the SQL text of \<open>search_movies\<close>, and \<open>prompt_head\<close>,
  \<open>prompt_tail\<close> the fixed text of the prompt template before and after the user's
  query.
\<close>

record 'db runtime =
  to_upper :: "nat \<Rightarrow> str"
  json_loads :: "str \<Rightarrow> pyexc + json"
  run_statement ::
    "str \<Rightarrow> str list option \<Rightarrow> 'db \<Rightarrow> (pyexc + (str \<times> sqlval) list list) \<times> 'db"
  api_key :: str
  call_deepseek_api :: "str \<Rightarrow> str option"
  search_query :: str
  prompt_head :: str
  prompt_tail :: str

text \<open>
  \<open>execute_query\<close> with \<open>fetch_one = False\<close>. The cursor is always opened with
  \<open>cursor_factory=RealDictCursor\<close>, so every fetched row is a \<open>RealDictRow\<close>; an
  exception of the store is logged and raised again.
\<close>

definition execute_query ::
  "'db runtime \<Rightarrow> str \<Rightarrow> str list option \<Rightarrow> 'db \<Rightarrow> (pyexc + pyrow list) \<times> 'db" where
  "execute_query rt query params db =
     (case run_statement rt query params db of
        (Inl e, db') \<Rightarrow> (Inl e, db')
      | (Inr result, db') \<Rightarrow> (Inr (map DictRow result), db'))"

section \<open>The response parser\<close>

definition SELECT_kw :: str where
  "SELECT_kw = lit ''SELECT''"

definition AI_GENERATED :: str where
  \<comment> \<open>the default interpretation, "AI generated query" in Chinese\<close>
  "AI_GENERATED = [65, 73, 29983, 25104, 30340, 26597, 35810]"

definition EXTRACTED_FROM_TEXT :: str where
  \<comment> \<open>"query extracted from text" in Chinese\<close>
  "EXTRACTED_FROM_TEXT = [20174, 25991, 26412, 20013, 25552, 21462, 30340, 26597, 35810]"

definition CANNOT_PARSE :: str where
  \<comment> \<open>"cannot parse the AI response" in Chinese\<close>
  "CANNOT_PARSE = [26080, 27861, 35299, 26512, 65, 73, 21709, 24212]"

definition CODE_FENCE :: str where
  "CODE_FENCE = [96, 96, 96]"

definition BLANK_LINE :: str where
  "BLANK_LINE = [10, 10]"

definition BLANK_LINE_CRLF :: str where
  "BLANK_LINE_CRLF = [13, 10, 13, 10]"

definition terminators :: "str list" where
  "terminators = [CODE_FENCE, BLANK_LINE, BLANK_LINE_CRLF]"

text \<open>
  The \<open>for terminator in [...]\<close> loop: the first terminator of the list that occurs cuts
  the candidate, and the loop stops there.
\<close>

fun cut_at_terminator :: "str list \<Rightarrow> str \<Rightarrow> str" where
  "cut_at_terminator [] cand = cand"
| "cut_at_terminator (t # ts) cand =
     (case find_str cand t of
        Some idx \<Rightarrow> take idx cand
      | None \<Rightarrow> cut_at_terminator ts cand)"

text \<open>The body of \<open>except json.JSONDecodeError\<close>.\<close>

definition scan_text :: "(nat \<Rightarrow> str) \<Rightarrow> str \<Rightarrow> str option \<times> str" where
  "scan_text up response =
     (case find_str (upper up response) SELECT_kw of
        Some sql_start \<Rightarrow>
          (let sql_candidate = drop sql_start response;
               sql_candidate = cut_at_terminator terminators sql_candidate;
               sql_candidate = rstrip_chars [44] (strip sql_candidate)
           in if startswith (upper up sql_candidate) SELECT_kw
              then (Some sql_candidate, EXTRACTED_FROM_TEXT)
              else (None, CANNOT_PARSE))
      | None \<Rightarrow> (None, CANNOT_PARSE))"

text \<open>The body of \<open>try\<close> after \<open>json.loads\<close> has returned \<open>parsed\<close>.\<close>

definition parse_structured :: "(nat \<Rightarrow> str) \<Rightarrow> json \<Rightarrow> pyexc + (str option \<times> str)" where
  "parse_structured up parsed =
     (case py_get parsed (lit ''sql'') (JStr []) of
        Inl e \<Rightarrow> Inl e
      | Inr v \<Rightarrow>
     (case py_strip v of
        Inl e \<Rightarrow> Inl e
      | Inr sql \<Rightarrow>
     (case py_get parsed (lit ''interpretation'') (JStr AI_GENERATED) of
        Inl e \<Rightarrow> Inl e
      | Inr w \<Rightarrow>
     (case py_strip w of
        Inl e \<Rightarrow> Inl e
      | Inr interpretation \<Rightarrow>
          if sql \<noteq> [] \<and> startswith (upper up sql) SELECT_kw
          then Inr (Some sql, interpretation)
          else Inr (None, interpretation)))))"

text \<open>
  \<open>_parse_ai_response\<close>. Only \<open>JSONDecodeError\<close> is caught; any other exception of the
  \<open>try\<close> body leaves the method.
\<close>

definition parse_ai_response :: "'db runtime \<Rightarrow> str \<Rightarrow> pyexc + (str option \<times> str)" where
  "parse_ai_response rt response =
     (case json_loads rt (strip response) of
        Inl JSONDecodeError \<Rightarrow> Inr (scan_text (to_upper rt) response)
      | Inl e \<Rightarrow> Inl e
      | Inr parsed \<Rightarrow> parse_structured (to_upper rt) parsed)"

section \<open>The executor\<close>

text \<open>The guard of \<open>_execute_ai_sql\<close>: \<open>sql_query.upper().strip().startswith('SELECT')\<close>.\<close>

definition is_select :: "'db runtime \<Rightarrow> str \<Rightarrow> bool" where
  "is_select rt sql_query \<longleftrightarrow> startswith (strip (upper (to_upper rt) sql_query)) SELECT_kw"

text \<open>The body of \<open>try\<close> in \<open>_execute_ai_sql\<close>.\<close>

definition execute_ai_sql_try ::
  "'db runtime \<Rightarrow> str \<Rightarrow> 'db \<Rightarrow> (pyexc + pyrow list) \<times> 'db" where
  "execute_ai_sql_try rt sql_query db =
     (if sql_query = [] \<or> \<not> is_select rt sql_query then (Inr [], db)
      else
        (case execute_query rt sql_query None db of
           (Inl e, db') \<Rightarrow> (Inl e, db')
         | (Inr result, db') \<Rightarrow>
             (case result of
                [] \<Rightarrow> (Inr [], db')
              | r # _ \<Rightarrow>
                  if is_dict r then (Inr (take 50 result), db')
                  else (Inr result, db'))))"

text \<open>\<open>_execute_ai_sql\<close>: \<open>except Exception\<close> turns every exception into \<open>[]\<close>.\<close>

definition execute_ai_sql :: "'db runtime \<Rightarrow> str \<Rightarrow> 'db \<Rightarrow> (pyexc + pyrow list) \<times> 'db" where
  "execute_ai_sql rt sql_query db =
     (case execute_ai_sql_try rt sql_query db of
        (Inl e, db') \<Rightarrow> (Inr [], db')
      | (Inr rows, db') \<Rightarrow> (Inr rows, db'))"

section \<open>Keyword search and the search pipeline\<close>

text \<open>
  \<open>search_movies\<close>: the fixed query, run with the pattern \<open>%keyword%\<close> for each of its
  four placeholders.
\<close>

definition search_movies ::
  "'db runtime \<Rightarrow> str \<Rightarrow> 'db \<Rightarrow> (pyexc + pyrow list) \<times> 'db" where
  "search_movies rt keyword db =
     (let search_pattern = [37] @ keyword @ [37]
      in execute_query rt (search_query rt)
           (Some [search_pattern, search_pattern, search_pattern, search_pattern]) db)"

text \<open>The dictionary that \<open>ai_search\<close> returns; \<open>interp\<close> is its key \<open>'interpretation'\<close>.\<close>

record search_result =
  movies :: "pyrow list"
  sql :: str
  interp :: str

definition KEYWORD_SEARCH :: str where
  \<comment> \<open>"keyword search" in Chinese\<close>
  "KEYWORD_SEARCH = [20851, 38190, 35789, 25628, 32034]"

definition fallback_sql :: "str \<Rightarrow> str" where
  "fallback_sql user_input =
     lit ''SELECT * FROM movie WHERE cn_title ILIKE '' @ [39, 37] @ user_input @ [37, 39]"

definition fallback_interpretation :: "str \<Rightarrow> str" where
  "fallback_interpretation user_input = KEYWORD_SEARCH @ lit '': '' @ user_input"

text \<open>
  The block that \<open>ai_search\<close> repeats four times: keyword search on the user's text, and
  the result record built around its rows.
\<close>

definition keyword_fallback ::
  "'db runtime \<Rightarrow> str \<Rightarrow> 'db \<Rightarrow> (pyexc + search_result) \<times> 'db" where
  "keyword_fallback rt user_input db =
     (case search_movies rt user_input db of
        (Inl e, db') \<Rightarrow> (Inl e, db')
      | (Inr rows, db') \<Rightarrow>
          (Inr \<lparr>movies = rows, sql = fallback_sql user_input,
                interp = fallback_interpretation user_input\<rparr>, db'))"

definition build_ai_search_prompt :: "'db runtime \<Rightarrow> str \<Rightarrow> str" where
  "build_ai_search_prompt rt user_input = prompt_head rt @ user_input @ prompt_tail rt"

text \<open>The body of \<open>try\<close> in \<open>ai_search\<close>.\<close>

definition ai_search_try ::
  "'db runtime \<Rightarrow> str \<Rightarrow> 'db \<Rightarrow> (pyexc + search_result) \<times> 'db" where
  "ai_search_try rt user_input db =
     (if api_key rt = [] then keyword_fallback rt user_input db
      else
        (case call_deepseek_api rt (build_ai_search_prompt rt user_input) of
           None \<Rightarrow> keyword_fallback rt user_input db
         | Some response \<Rightarrow>
             if response = [] then keyword_fallback rt user_input db
             else
               (case parse_ai_response rt response of
                  Inl e \<Rightarrow> (Inl e, db)
                | Inr (None, explanation) \<Rightarrow> keyword_fallback rt user_input db
                | Inr (Some sql_query, explanation) \<Rightarrow>
                    if sql_query = [] then keyword_fallback rt user_input db
                    else
                      (case execute_ai_sql rt sql_query db of
                         (Inl e, db') \<Rightarrow> (Inl e, db')
                       | (Inr rows, db') \<Rightarrow>
                           (Inr \<lparr>movies = rows, sql = sql_query,
                                 interp = explanation\<rparr>, db')))))"

text \<open>\<open>ai_search\<close>: \<open>except Exception\<close> runs the keyword search once more.\<close>

definition ai_search ::
  "'db runtime \<Rightarrow> str \<Rightarrow> 'db \<Rightarrow> (pyexc + search_result) \<times> 'db" where
  "ai_search rt user_input db =
     (case ai_search_try rt user_input db of
        (Inl e, db') \<Rightarrow> keyword_fallback rt user_input db'
      | (Inr res, db') \<Rightarrow> (Inr res, db'))"

section \<open>The introduction cache\<close>








section \<open>Occurrences, and the cut as the specification words it\<close>

text \<open>\<open>sub\<close> occurs in \<open>s\<close> at index \<open>k\<close>; it occurs there first; it does not occur.\<close>

definition occurs_at :: "str \<Rightarrow> str \<Rightarrow> nat \<Rightarrow> bool" where
  "occurs_at sub s k \<longleftrightarrow> k \<le> length s \<and> prefix sub (drop k s)"

definition first_at :: "str \<Rightarrow> str \<Rightarrow> nat \<Rightarrow> bool" where
  "first_at sub s k \<longleftrightarrow> occurs_at sub s k \<and> (\<forall>j<k. \<not> occurs_at sub s j)"

definition absent :: "str \<Rightarrow> str \<Rightarrow> bool" where
  "absent sub s \<longleftrightarrow> (\<forall>j\<le>length s. \<not> occurs_at sub s j)"

text \<open>
  The specification's words for the end of the candidate: "the first occurrence of a
  code-fence marker or a double line break, whichever comes first", that is, the
  least index at which any terminator occurs.
\<close>

fun earliest :: "nat option list \<Rightarrow> nat option" where
  "earliest [] = None"
| "earliest (None # ps) = earliest ps"
| "earliest (Some k # ps) = (case earliest ps of None \<Rightarrow> Some k | Some j \<Rightarrow> Some (min k j))"

definition spec_cut_at_earliest :: "str \<Rightarrow> str" where
  "spec_cut_at_earliest cand =
     (case earliest (map (find_str cand) terminators) of
        Some k \<Rightarrow> take k cand
      | None \<Rightarrow> cand)"

text \<open>
  What the parser does with a candidate once it is cut: strip it, drop trailing
  commas, and keep it if its upper-cased text starts with \<open>SELECT\<close>.
\<close>

definition accept_candidate :: "(nat \<Rightarrow> str) \<Rightarrow> str \<Rightarrow> str option \<times> str" where
  "accept_candidate up cand =
     (let sql_candidate = rstrip_chars [44] (strip cand)
      in if startswith (upper up sql_candidate) SELECT_kw
         then (Some sql_candidate, EXTRACTED_FROM_TEXT)
         else (None, CANNOT_PARSE))"


section \<open>A concrete runtime for the examples\<close>

definition summary_fields :: "str list" where
  "summary_fields =
     [lit ''movie_id'', lit ''rank'', lit ''cn_title'', lit ''original_title'', lit ''year'',
      lit ''rating'', lit ''poster_url'', lit ''directors'', lit ''actors'']"

definition example_summary :: "(str \<times> sqlval) list" where
  "example_summary =
     [(lit ''movie_id'', SqlInt 1), (lit ''rank'', SqlInt 1),
      (lit ''cn_title'', SqlText [32918, 30003, 20811, 30340, 25937, 36174]),
      (lit ''original_title'', SqlText (lit ''The Shawshank Redemption'')),
      (lit ''year'', SqlInt 1994), (lit ''rating'', SqlDecimal 97 1),
      (lit ''poster_url'', SqlNull),
      (lit ''directors'', SqlText (lit ''Frank Darabont'')),
      (lit ''actors'', SqlText (lit ''Tim Robbins, Morgan Freeman''))]"

text \<open>
  A store that keeps the list of the statements sent to it. It answers every
  statement that comes with parameters (the keyword search) with one summary row,
  \<open>SELECT 1\<close> with its one-column row, \<open>generate_series(1, 60)\<close> with sixty rows,
  and raises on any other statement.
\<close>

definition example_store ::
  "str \<Rightarrow> str list option \<Rightarrow> str list
     \<Rightarrow> (pyexc + (str \<times> sqlval) list list) \<times> str list" where
  "example_store query params sent =
     (if params \<noteq> None then Inr [example_summary]
      else if query = lit ''SELECT 1'' then Inr [[(lit ''?column?'', SqlInt 1)]]
      else if query = lit ''SELECT generate_series(1, 60) AS n''
      then Inr (map (\<lambda>n. [(lit ''n'', SqlInt (int n))]) [1..<61])
      else Inl DatabaseError,
      sent @ [query])"

definition response_select_one :: str where
  \<open>response_select_one = lit ''{"sql": "SELECT 1", "interpretation": "one"}''\<close>

definition response_delete :: str where
  \<open>response_delete =
     lit ''{"sql": "DELETE FROM movie; SELECT 1", "interpretation": "purge"}''\<close>

definition response_unknown_column :: str where
  \<open>response_unknown_column = lit ''{"sql": "SELECT nope FROM movie"}''\<close>

definition response_list :: str where
  \<open>response_list = lit ''["SELECT 1"]''\<close>

definition response_fence_after_blank_line :: str where
  "response_fence_after_blank_line =
     lit ''Try SELECT 1'' @ [10, 10] @ lit ''or SELECT 2'' @ [10] @ CODE_FENCE"

text \<open>
  \<open>json.loads\<close> on the four JSON texts above. Every other text the examples pass to it
  is not JSON, and the decoder raises on it.
\<close>

definition example_loads :: "str \<Rightarrow> pyexc + json" where
  "example_loads s =
     (if s = response_select_one
      then Inr (JObj [(lit ''sql'', JStr (lit ''SELECT 1'')),
                      (lit ''interpretation'', JStr (lit ''one''))])
      else if s = response_delete
      then Inr (JObj [(lit ''sql'', JStr (lit ''DELETE FROM movie; SELECT 1'')),
                      (lit ''interpretation'', JStr (lit ''purge''))])
      else if s = response_unknown_column
      then Inr (JObj [(lit ''sql'', JStr (lit ''SELECT nope FROM movie''))])
      else if s = response_list
      then Inr (JArr [JStr (lit ''SELECT 1'')])
      else Inl JSONDecodeError)"

text \<open>A runtime with no API key; the examples set the key and the model's answer.\<close>

definition example_rt :: "str list runtime" where
  "example_rt =
     \<lparr>to_upper = ascii_upper,
      json_loads = example_loads,
      run_statement = example_store,
      api_key = [],
      call_deepseek_api = (\<lambda>prompt. None),
      search_query = lit ''SELECT m.movie_id FROM movie m WHERE m.cn_title ILIKE %s'',
      prompt_head = lit ''query: '',
      prompt_tail = lit '' (answer in JSON)''\<rparr>"

definition answering :: "str \<Rightarrow> str list runtime" where
  "answering response =
     example_rt\<lparr>api_key := lit ''sk-test'', call_deepseek_api := (\<lambda>prompt. Some response)\<rparr>"



section \<open>Facts about the string operations\<close>

lemmas str_defs = lit_def strip_def lstrip_def rstrip_def rstrip_chars_def startswith_def
  upper_def ascii_upper_def isspace_def SELECT_kw_def

lemmas example_defs = example_rt_def example_loads_def example_store_def
  response_select_one_def response_delete_def response_unknown_column_def
  response_list_def answering_def

lemma SELECT_kw_code: "SELECT_kw = [83, 69, 76, 69, 67, 84]"
  by (simp add: SELECT_kw_def lit_def)

lemma rstrip_keeps_prefix:
  assumes "prefix p s" and "p \<noteq> []" and "\<not> isspace (last p)"
  shows "prefix p (rstrip s)"
proof -
  from assms(1) obtain t where s: "s = p @ t" by (auto simp: prefix_def)
  have "dropWhile isspace (rev t @ rev p) =
        (if \<forall>c\<in>set (rev t). isspace c then dropWhile isspace (rev p)
         else dropWhile isspace (rev t) @ rev p)"
    by (simp add: dropWhile_append)
  moreover have "dropWhile isspace (rev p) = rev p"
    using assms(2,3) by (cases "rev p") (auto simp: last_rev hd_rev)
  ultimately show ?thesis
    by (auto simp: rstrip_def s prefix_def)
qed

lemma lstrip_noop: "s \<noteq> [] \<Longrightarrow> \<not> isspace (hd s) \<Longrightarrow> lstrip s = s"
  by (cases s) (auto simp: lstrip_def)

lemma startswith_strip:
  assumes "startswith s p" and "p \<noteq> []" and "\<not> isspace (hd p)" and "\<not> isspace (last p)"
  shows "startswith (strip s) p"
proof -
  from assms(1,2) have "s \<noteq> []" and "hd s = hd p"
    by (auto simp: startswith_def prefix_def)
  with assms(3) have "lstrip s = s" by (simp add: lstrip_noop)
  with assms show ?thesis
    by (simp add: strip_def startswith_def rstrip_keeps_prefix)
qed

lemma startswith_strip_SELECT:
  "startswith s SELECT_kw \<Longrightarrow> startswith (strip s) SELECT_kw"
  by (rule startswith_strip) (simp_all add: SELECT_kw_code isspace_def)

lemma two_prefixes:
  "startswith s p \<Longrightarrow> startswith s q \<Longrightarrow> length p \<le> length q \<Longrightarrow> prefix p q"
  unfolding startswith_def by (metis prefix_length_prefix)

section \<open>The parser returns SELECT statements only\<close>

lemma scan_text_select:
  "scan_text up response = (Some stmt, expl) \<Longrightarrow> startswith (upper up stmt) SELECT_kw"
  by (auto simp: scan_text_def Let_def split: option.splits if_splits)

lemma parse_structured_select:
  "parse_structured up parsed = Inr (Some stmt, expl) \<Longrightarrow>
     startswith (upper up stmt) SELECT_kw"
  by (auto simp: parse_structured_def split: sum.splits if_splits)

lemma parse_ai_response_select:
  "parse_ai_response rt response = Inr (Some stmt, expl) \<Longrightarrow>
     startswith (upper (to_upper rt) stmt) SELECT_kw"
  by (auto simp: parse_ai_response_def scan_text_select parse_structured_select
           split: sum.splits pyexc.splits)

lemma parse_ai_response_is_select:
  "parse_ai_response rt response = Inr (Some stmt, expl) \<Longrightarrow> is_select rt stmt"
  unfolding is_select_def by (intro startswith_strip_SELECT parse_ai_response_select)

lemma execute_ai_sql_rejects:
  "\<not> is_select rt q \<Longrightarrow> execute_ai_sql rt q db = (Inr [], db)"
  by (simp add: execute_ai_sql_def execute_ai_sql_try_def)

text \<open>
  C1. Read-only boundary. Whenever \<open>_parse_ai_response\<close> returns a statement, the
  statement passes the executor's own test: upper-cased and trimmed, it starts with
  \<open>SELECT\<close>. (The parser may also raise, on a response that decodes to a value other
  than a record of strings; then it returns no statement either.) \<open>_execute_ai_sql\<close>
  sends a candidate to the store only if it passes that test: for a candidate that
  fails it, whatever the store is, the result is the empty list and the store is left
  as it was. In particular a candidate that starts with \<open>INSERT\<close>, \<open>UPDATE\<close>, \<open>DELETE\<close>
  or \<open>DROP\<close> is never executed.
\<close>

theorem read_only_boundary:
  "(parse_ai_response rt response = Inr (Some stmt, expl) \<longrightarrow> is_select rt stmt) \<and>
   (\<not> is_select rt candidate \<longrightarrow> execute_ai_sql rt candidate db = (Inr [], db)) \<and>
   (kw \<in> {lit ''INSERT'', lit ''UPDATE'', lit ''DELETE'', lit ''DROP''} \<and>
      startswith (strip (upper (to_upper rt) candidate)) kw \<longrightarrow>
        execute_ai_sql rt candidate db = (Inr [], db))"
proof (intro conjI impI)
  assume "parse_ai_response rt response = Inr (Some stmt, expl)"
  then show "is_select rt stmt" by (rule parse_ai_response_is_select)
next
  assume "\<not> is_select rt candidate"
  then show "execute_ai_sql rt candidate db = (Inr [], db)" by (rule execute_ai_sql_rejects)
next
  assume a: "kw \<in> {lit ''INSERT'', lit ''UPDATE'', lit ''DELETE'', lit ''DROP''} \<and>
      startswith (strip (upper (to_upper rt) candidate)) kw"
  have "\<not> is_select rt candidate"
  proof
    assume "is_select rt candidate"
    then have s: "startswith (strip (upper (to_upper rt) candidate)) SELECT_kw"
      by (simp add: is_select_def)
    from a have "length kw \<le> length SELECT_kw" by (auto simp: lit_def SELECT_kw_code)
    with a s have "prefix kw SELECT_kw" by (blast intro: two_prefixes)
    with a show False by (auto simp: lit_def SELECT_kw_code)
  qed
  then show "execute_ai_sql rt candidate db = (Inr [], db)" by (rule execute_ai_sql_rejects)
qed

text \<open>
  The boundary at work: the parser hands over \<open>SELECT 1\<close>, and the executor, given
  \<open>drop table movie\<close>, returns no row and sends nothing to the store.
\<close>

theorem read_only_boundary_witness:
  "parse_ai_response example_rt response_select_one = Inr (Some (lit ''SELECT 1''), lit ''one'') \<and>
   is_select example_rt (lit ''SELECT 1'') \<and>
   \<not> is_select example_rt (lit ''  drop table movie'') \<and>
   lit ''DROP'' \<in> {lit ''INSERT'', lit ''UPDATE'', lit ''DELETE'', lit ''DROP''} \<and>
   startswith (strip (upper (to_upper example_rt) (lit ''  drop table movie''))) (lit ''DROP'') \<and>
   execute_ai_sql example_rt (lit ''  drop table movie'') [] = (Inr [], [])"
proof -
  have p: "parse_ai_response example_rt response_select_one =
             Inr (Some (lit ''SELECT 1''), lit ''one'')"
    by (simp add: parse_ai_response_def parse_structured_def py_get_def py_strip_def
                  example_defs str_defs)
  have n: "\<not> is_select example_rt (lit ''  drop table movie'')"
    by (simp add: is_select_def example_defs str_defs)
  have k: "startswith (strip (upper (to_upper example_rt) (lit ''  drop table movie'')))
             (lit ''DROP'')"
    by (simp add: example_defs str_defs)
  from read_only_boundary [of example_rt response_select_one "lit ''SELECT 1''" "lit ''one''"
      "lit ''  drop table movie''" "[]" "lit ''DROP''"] p n k
  show ?thesis by simp
qed

section \<open>The examples, evaluated\<close>

lemma example_search:
  "search_movies (answering response) keyword db =
     (Inr [DictRow example_summary], db @ [search_query example_rt])"
  by (simp add: search_movies_def execute_query_def answering_def example_rt_def
                example_store_def)

lemma answering_fields:
  "api_key (answering response) = lit ''sk-test''"
  "call_deepseek_api (answering response) prompt = Some response"
  by (simp_all add: answering_def)

lemma select_one_parse:
  "parse_ai_response (answering r) response_select_one =
     Inr (Some (lit ''SELECT 1''), lit ''one'')"
  by (simp add: parse_ai_response_def parse_structured_def py_get_def py_strip_def
                example_defs str_defs)

lemma select_one_run:
  "execute_ai_sql (answering r) (lit ''SELECT 1'') [] =
     (Inr [DictRow [(lit ''?column?'', SqlInt 1)]], [lit ''SELECT 1''])"
  by (simp add: execute_ai_sql_def execute_ai_sql_try_def execute_query_def is_select_def
                example_defs str_defs)

lemma unknown_column_parse:
  "parse_ai_response (answering r) response_unknown_column =
     Inr (Some (lit ''SELECT nope FROM movie''), AI_GENERATED)"
  by (simp add: parse_ai_response_def parse_structured_def py_get_def py_strip_def
                example_defs str_defs AI_GENERATED_def)

lemma unknown_column_store:
  "execute_query (answering r) (lit ''SELECT nope FROM movie'') None [] =
     (Inl DatabaseError, [lit ''SELECT nope FROM movie''])"
  by (simp add: execute_query_def example_defs lit_def)

lemma unknown_column_run:
  "execute_ai_sql (answering r) (lit ''SELECT nope FROM movie'') [] =
     (Inr [], [lit ''SELECT nope FROM movie''])"
  by (simp add: execute_ai_sql_def execute_ai_sql_try_def execute_query_def is_select_def
                example_defs str_defs)

section \<open>The search pipeline always returns\<close>

lemma keyword_fallback_total:
  assumes "\<And>keyword db. \<exists>rows db'. search_movies rt keyword db = (Inr rows, db')"
  shows "\<exists>res db'. keyword_fallback rt user_input db = (Inr res, db')"
proof -
  from assms obtain rows db' where "search_movies rt user_input db = (Inr rows, db')"
    by blast
  then show ?thesis by (simp add: keyword_fallback_def)
qed

text \<open>
  C2. Totality of \<open>ai_search\<close>. If the keyword search never raises, then for every user
  text, every runtime (whatever the model answers and however the response decodes)
  and every state of the store, \<open>ai_search\<close> returns a result record, with its rows, its
  SQL text and its interpretation, and raises nothing: an exception of the \<open>try\<close> body
  is caught and answered by the keyword search.
\<close>

theorem ai_search_total:
  assumes "\<And>keyword db. \<exists>rows db'. search_movies rt keyword db = (Inr rows, db')"
  shows "\<exists>res db'. ai_search rt user_input db = (Inr res, db')"
proof (cases "ai_search_try rt user_input db")
  case (Pair outcome db1)
  show ?thesis
  proof (cases outcome)
    case (Inl e)
    with Pair have "ai_search rt user_input db = keyword_fallback rt user_input db1"
      by (simp add: ai_search_def)
    with keyword_fallback_total [OF assms] show ?thesis by simp
  next
    case (Inr res)
    with Pair show ?thesis by (simp add: ai_search_def)
  qed
qed

text \<open>
  An adversarial run: the model answers with a JSON list, on which the parser raises
  \<open>AttributeError\<close>; the user text carries a code fence and a \<open>DROP\<close>.
\<close>

theorem ai_search_total_witness:
  "(\<forall>keyword db. \<exists>rows db'.
      search_movies (answering response_list) keyword db = (Inr rows, db')) \<and>
   parse_ai_response (answering response_list) response_list = Inl AttributeError \<and>
   (\<exists>res db'. ai_search (answering response_list)
                 (lit ''x'' @ CODE_FENCE @ lit ''; DROP TABLE movie'') [] = (Inr res, db'))"
proof -
  have h: "\<And>keyword db. \<exists>rows db'.
      search_movies (answering response_list) keyword db = (Inr rows, db')"
    by (simp add: example_search)
  have p: "parse_ai_response (answering response_list) response_list = Inl AttributeError"
    by (simp add: parse_ai_response_def parse_structured_def py_get_def example_defs str_defs)
  from ai_search_total [of "answering response_list", OF h] h p show ?thesis by blast
qed

section \<open>When the store rejects the generated statement\<close>

lemma is_select_nonempty: "is_select rt q \<Longrightarrow> q \<noteq> []"
  by (auto simp: is_select_def str_defs)

lemma execute_ai_sql_store_raises:
  "execute_query rt q None db = (Inl e, db') \<Longrightarrow> is_select rt q \<Longrightarrow> q \<noteq> [] \<Longrightarrow>
     execute_ai_sql rt q db = (Inr [], db')"
  by (simp add: execute_ai_sql_def execute_ai_sql_try_def)

lemma execute_ai_sql_take:
  assumes "is_select rt q" and "q \<noteq> []"
    and "run_statement rt q None db = (Inr result, db')"
  shows "execute_ai_sql rt q db = (Inr (take 50 (map DictRow result)), db')"
  using assms
  by (cases result)
     (simp_all add: execute_ai_sql_def execute_ai_sql_try_def execute_query_def)

text \<open>
  C3, as the code has it. When the model's answer parses to a statement and the store
  raises on that statement, \<open>ai_search\<close> does not run the keyword search: it returns
  an empty list of rows together with the generated statement and its
  interpretation.
\<close>

theorem execution_failure_empty_result:
  assumes "api_key rt \<noteq> []"
    and "call_deepseek_api rt (build_ai_search_prompt rt user_input) = Some response"
    and "response \<noteq> []"
    and "parse_ai_response rt response = Inr (Some q, expl)"
    and "execute_query rt q None db = (Inl e, db')"
  shows "ai_search rt user_input db = (Inr \<lparr>movies = [], sql = q, interp = expl\<rparr>, db')"
proof -
  from assms(4) have s: "is_select rt q" by (rule parse_ai_response_is_select)
  then have n: "q \<noteq> []" by (rule is_select_nonempty)
  from assms(5) s n have "execute_ai_sql rt q db = (Inr [], db')"
    by (rule execute_ai_sql_store_raises)
  with assms n show ?thesis
    by (simp add: ai_search_def ai_search_try_def)
qed

theorem execution_failure_empty_result_witness:
  "api_key (answering response_unknown_column) \<noteq> [] \<and>
   response_unknown_column \<noteq> [] \<and>
   ai_search (answering response_unknown_column) (lit ''nope'') [] =
     (Inr \<lparr>movies = [], sql = lit ''SELECT nope FROM movie'', interp = AI_GENERATED\<rparr>,
      [lit ''SELECT nope FROM movie''])"
proof -
  have a: "api_key (answering response_unknown_column) \<noteq> []"
    and c: "call_deepseek_api (answering response_unknown_column)
              (build_ai_search_prompt (answering response_unknown_column) (lit ''nope'')) =
            Some response_unknown_column"
    and r: "response_unknown_column \<noteq> []"
    by (simp_all add: answering_fields response_unknown_column_def lit_def)
  from execution_failure_empty_result [OF a c r unknown_column_parse unknown_column_store] a r
  show ?thesis by simp
qed

text \<open>
  C3 as stated fails. The model answers \<open>SELECT nope FROM movie\<close>, the store raises on
  it, the keyword search on the user's text has a row; \<open>ai_search\<close> returns no row and
  the generated statement, which is not the fallback outcome.
\<close>

theorem execution_failure_counterexample:
  "execute_query (answering response_unknown_column) (lit ''SELECT nope FROM movie'') None [] =
     (Inl DatabaseError, [lit ''SELECT nope FROM movie'']) \<and>
   fst (keyword_fallback (answering response_unknown_column) (lit ''nope'') []) =
     Inr \<lparr>movies = [DictRow example_summary], sql = fallback_sql (lit ''nope''),
          interp = fallback_interpretation (lit ''nope'')\<rparr> \<and>
   fst (ai_search (answering response_unknown_column) (lit ''nope'') []) =
     Inr \<lparr>movies = [], sql = lit ''SELECT nope FROM movie'', interp = AI_GENERATED\<rparr>"
proof (intro conjI)
  show "execute_query (answering response_unknown_column) (lit ''SELECT nope FROM movie'')
          None [] = (Inl DatabaseError, [lit ''SELECT nope FROM movie''])"
    by (rule unknown_column_store)
next
  show "fst (keyword_fallback (answering response_unknown_column) (lit ''nope'') []) =
     Inr \<lparr>movies = [DictRow example_summary], sql = fallback_sql (lit ''nope''),
          interp = fallback_interpretation (lit ''nope'')\<rparr>"
    by (simp add: keyword_fallback_def example_search)
next
  have n: "response_unknown_column \<noteq> []" "lit ''SELECT nope FROM movie'' \<noteq> []"
    "lit ''sk-test'' \<noteq> []"
    by (simp_all add: response_unknown_column_def lit_def)
  show "fst (ai_search (answering response_unknown_column) (lit ''nope'') []) =
     Inr \<lparr>movies = [], sql = lit ''SELECT nope FROM movie'', interp = AI_GENERATED\<rparr>"
    by (simp add: ai_search_def ai_search_try_def answering_fields n unknown_column_parse
                  unknown_column_run)
qed

text \<open>
  C4. Execution errors are absorbed in the executor. Whenever the store raises on the
  statement, \<open>_execute_ai_sql\<close> returns the empty list; and whatever the statement and
  the store, it returns a list and raises nothing.
\<close>

theorem execute_ai_sql_absorbs_errors:
  "(execute_query rt q None db = (Inl e, db') \<longrightarrow> fst (execute_ai_sql rt q db) = Inr []) \<and>
   (\<exists>rows db''. execute_ai_sql rt q db = (Inr rows, db''))"
  by (auto simp: execute_ai_sql_def execute_ai_sql_try_def
           split: prod.splits sum.splits list.splits)

theorem execute_ai_sql_absorbs_errors_witness:
  "execute_query example_rt (lit ''SELECT nope FROM movie'') None [] =
     (Inl DatabaseError, [lit ''SELECT nope FROM movie'']) \<and>
   fst (execute_ai_sql example_rt (lit ''SELECT nope FROM movie'') []) = Inr []"
proof -
  have s: "execute_query example_rt (lit ''SELECT nope FROM movie'') None [] =
     (Inl DatabaseError, [lit ''SELECT nope FROM movie''])"
    by (simp add: execute_query_def example_defs lit_def)
  from execute_ai_sql_absorbs_errors [of example_rt "lit ''SELECT nope FROM movie''" "[]"
      DatabaseError "[lit ''SELECT nope FROM movie'']"] s
  show ?thesis by simp
qed

text \<open>
  C5. Row cap. Whatever the statement, whatever rows the store returns for it and
  whatever columns they have, the list that \<open>_execute_ai_sql\<close> returns has at most 50
  rows. (Every row that \<open>execute_query\<close> fetches is a \<open>RealDictRow\<close>, so the test
  \<open>isinstance(result[0], dict)\<close> holds for every result that is not empty and the
  slice \<open>result[:50]\<close> is taken.)
\<close>

theorem execute_ai_sql_row_cap:
  "execute_ai_sql rt q db = (Inr rows, db') \<Longrightarrow> length rows \<le> 50"
  by (auto simp: execute_ai_sql_def execute_ai_sql_try_def execute_query_def
           split: prod.splits sum.splits list.splits if_splits)

text \<open>A statement for which the store has sixty rows: the first fifty come back.\<close>

theorem execute_ai_sql_row_cap_witness:
  "execute_ai_sql example_rt (lit ''SELECT generate_series(1, 60) AS n'') [] =
     (Inr (map (\<lambda>n. DictRow [(lit ''n'', SqlInt (int n))]) [1..<51]),
      [lit ''SELECT generate_series(1, 60) AS n'']) \<and>
   length (map (\<lambda>n. DictRow [(lit ''n'', SqlInt (int n))]) [1..<51]) \<le> 50"
proof -
  have s: "is_select example_rt (lit ''SELECT generate_series(1, 60) AS n'')"
    by (simp add: is_select_def example_defs str_defs)
  have r: "run_statement example_rt (lit ''SELECT generate_series(1, 60) AS n'') None [] =
             (Inr (map (\<lambda>n. [(lit ''n'', SqlInt (int n))]) [1..<61]),
              [lit ''SELECT generate_series(1, 60) AS n''])"
    by (simp add: example_defs lit_def)
  have e: "execute_ai_sql example_rt (lit ''SELECT generate_series(1, 60) AS n'') [] =
     (Inr (map (\<lambda>n. DictRow [(lit ''n'', SqlInt (int n))]) [1..<51]),
      [lit ''SELECT generate_series(1, 60) AS n''])"
    using execute_ai_sql_take [OF s is_select_nonempty [OF s] r]
    by (simp add: take_map comp_def)
  from execute_ai_sql_row_cap [OF e] e show ?thesis by simp
qed

section \<open>The fallback when no credential is configured\<close>

lemma find_str_inside: "find_str (a @ sub @ b) sub \<noteq> None"
proof (induction a)
  case Nil
  have "prefix sub (sub @ b)" by simp
  then show ?case by (cases "sub @ b") auto
next
  case (Cons c a)
  then show ?case by auto
qed

lemma contains_inside: "contains (a @ sub @ b) sub"
  by (simp add: contains_def find_str_inside)

text \<open>
  C8. ConfigurationAbsent short-circuit. With no API key configured, \<open>ai_search\<close>
  returns, for whatever the model would answer, the rows of the keyword search on the
  user's text, an interpretation that contains the Chinese for "keyword search", and
  an SQL text that contains \<open>cn_title ILIKE '%userText%'\<close>. (The rows are those of a
  keyword search that returns; the search is the one collaborator whose failure the
  pipeline does not absorb.)
\<close>

theorem no_credential_falls_back:
  assumes "api_key rt = []" and "search_movies rt user_input db = (Inr rows, db')"
  shows "ai_search rt user_input db =
           (Inr \<lparr>movies = rows, sql = fallback_sql user_input,
                 interp = fallback_interpretation user_input\<rparr>, db') \<and>
         contains (fallback_interpretation user_input) KEYWORD_SEARCH \<and>
         contains (fallback_sql user_input)
           (lit ''cn_title ILIKE '' @ [39, 37] @ user_input @ [37, 39])"
proof (intro conjI)
  from assms show "ai_search rt user_input db =
           (Inr \<lparr>movies = rows, sql = fallback_sql user_input,
                 interp = fallback_interpretation user_input\<rparr>, db')"
    by (simp add: ai_search_def ai_search_try_def keyword_fallback_def)
next
  show "contains (fallback_interpretation user_input) KEYWORD_SEARCH"
    using contains_inside [of "[]" KEYWORD_SEARCH "lit '': '' @ user_input"]
    by (simp add: fallback_interpretation_def)
next
  have "fallback_sql user_input =
          lit ''SELECT * FROM movie WHERE '' @
          (lit ''cn_title ILIKE '' @ [39, 37] @ user_input @ [37, 39]) @ []"
    by (simp add: fallback_sql_def lit_def)
  then show "contains (fallback_sql user_input)
           (lit ''cn_title ILIKE '' @ [39, 37] @ user_input @ [37, 39])"
    by (simp only: contains_inside)
qed

text \<open>
  The scenario of the specification: the user's text is the four characters
  U+9AD8 U+5206 U+79D1 U+5E7B ("high-rated science fiction").
\<close>

theorem no_credential_falls_back_witness:
  "api_key example_rt = [] \<and>
   ai_search example_rt [39640, 20998, 31185, 24187] [] =
     (Inr \<lparr>movies = [DictRow example_summary],
           sql = lit ''SELECT * FROM movie WHERE cn_title ILIKE '' @
                 [39, 37, 39640, 20998, 31185, 24187, 37, 39],
           interp = [20851, 38190, 35789, 25628, 32034, 58, 32,
                     39640, 20998, 31185, 24187]\<rparr>,
      [search_query example_rt]) \<and>
   contains [20851, 38190, 35789, 25628, 32034, 58, 32, 39640, 20998, 31185, 24187]
     [20851, 38190, 35789, 25628, 32034] \<and>
   contains (lit ''SELECT * FROM movie WHERE cn_title ILIKE '' @
             [39, 37, 39640, 20998, 31185, 24187, 37, 39])
     (lit ''cn_title ILIKE '' @ [39, 37, 39640, 20998, 31185, 24187, 37, 39])"
proof -
  have k: "api_key example_rt = []" by (simp add: example_rt_def)
  have s: "search_movies example_rt [39640, 20998, 31185, 24187] [] =
             (Inr [DictRow example_summary], [search_query example_rt])"
    by (simp add: search_movies_def execute_query_def example_rt_def example_store_def)
  from no_credential_falls_back [OF k s] k show ?thesis
    by (simp add: fallback_sql_def fallback_interpretation_def KEYWORD_SEARCH_def lit_def)
qed

section \<open>The shape of the rows\<close>

text \<open>
  C9, as the code has it. Every row that \<open>_execute_ai_sql\<close> returns is one of the
  dictionaries the store returned for the generated statement, with exactly that
  dictionary's fields: the executor passes the rows on as they are and does not
  compare their fields with those of a keyword-search row.
\<close>

theorem ai_rows_are_store_rows:
  assumes "execute_ai_sql rt q db = (Inr rows, db')" and "r \<in> set rows"
  shows "\<exists>result db'' kvs. run_statement rt q None db = (Inr result, db'') \<and>
           kvs \<in> set result \<and> r = DictRow kvs \<and> row_fields r = fst ` set kvs"
proof -
  from assms have s: "is_select rt q" and n: "q \<noteq> []"
    by (auto simp: execute_ai_sql_def execute_ai_sql_try_def split: if_splits)
  obtain outcome db1 where o: "run_statement rt q None db = (outcome, db1)"
    by (cases "run_statement rt q None db")
  show ?thesis
  proof (cases outcome)
    case (Inl e)
    with o s n assms show ?thesis
      by (simp add: execute_ai_sql_def execute_ai_sql_try_def execute_query_def)
  next
    case (Inr result)
    with o s n have "execute_ai_sql rt q db = (Inr (take 50 (map DictRow result)), db1)"
      by (simp add: execute_ai_sql_take)
    with assms have "r \<in> set (take 50 (map DictRow result))" by simp
    then have "r \<in> DictRow ` set result" using set_take_subset by fastforce
    with o Inr show ?thesis by auto
  qed
qed

theorem ai_rows_are_store_rows_witness:
  "execute_ai_sql example_rt (lit ''SELECT 1'') [] =
     (Inr [DictRow [(lit ''?column?'', SqlInt 1)]], [lit ''SELECT 1'']) \<and>
   DictRow [(lit ''?column?'', SqlInt 1)] \<in> set [DictRow [(lit ''?column?'', SqlInt 1)]] \<and>
   (\<exists>result db'' kvs.
      run_statement example_rt (lit ''SELECT 1'') None [] = (Inr result, db'') \<and>
      kvs \<in> set result \<and> DictRow [(lit ''?column?'', SqlInt 1)] = DictRow kvs \<and>
      row_fields (DictRow [(lit ''?column?'', SqlInt 1)]) = fst ` set kvs)"
proof -
  have e: "execute_ai_sql example_rt (lit ''SELECT 1'') [] =
     (Inr [DictRow [(lit ''?column?'', SqlInt 1)]], [lit ''SELECT 1''])"
    by (simp add: execute_ai_sql_def execute_ai_sql_try_def execute_query_def is_select_def
                  example_defs str_defs)
  have m: "DictRow [(lit ''?column?'', SqlInt 1)] \<in>
             set [DictRow [(lit ''?column?'', SqlInt 1)]]"
    by simp
  from ai_rows_are_store_rows [OF e m] e m show ?thesis by blast
qed

text \<open>
  C9 as stated fails. The model answers \<open>SELECT 1\<close>; the row that \<open>ai_search\<close> returns has
  the single field \<open>?column?\<close>, while the row of the keyword search has the nine
  summary fields.
\<close>

theorem shape_parity_counterexample:
  "fst (ai_search (answering response_select_one) (lit ''one'') []) =
     Inr \<lparr>movies = [DictRow [(lit ''?column?'', SqlInt 1)]], sql = lit ''SELECT 1'',
          interp = lit ''one''\<rparr> \<and>
   row_fields (DictRow [(lit ''?column?'', SqlInt 1)]) \<noteq> set summary_fields \<and>
   fst (search_movies (answering response_select_one) (lit ''one'') []) =
     Inr [DictRow example_summary] \<and>
   row_fields (DictRow example_summary) = set summary_fields"
proof (intro conjI)
  have n: "response_select_one \<noteq> []" "lit ''SELECT 1'' \<noteq> []" "lit ''sk-test'' \<noteq> []"
    by (simp_all add: response_select_one_def lit_def)
  show "fst (ai_search (answering response_select_one) (lit ''one'') []) =
     Inr \<lparr>movies = [DictRow [(lit ''?column?'', SqlInt 1)]], sql = lit ''SELECT 1'',
          interp = lit ''one''\<rparr>"
    by (simp add: ai_search_def ai_search_try_def answering_fields n select_one_parse
                  select_one_run)
next
  have "lit ''rank'' \<in> set summary_fields" by (simp add: summary_fields_def)
  moreover have "lit ''rank'' \<notin> row_fields (DictRow [(lit ''?column?'', SqlInt 1)])"
    by (simp add: lit_def)
  ultimately show "row_fields (DictRow [(lit ''?column?'', SqlInt 1)]) \<noteq> set summary_fields"
    by blast
next
  show "fst (search_movies (answering response_select_one) (lit ''one'') []) =
     Inr [DictRow example_summary]"
    by (simp add: example_search)
next
  show "row_fields (DictRow example_summary) = set summary_fields"
    by (simp add: example_summary_def summary_fields_def)
qed

section \<open>Scanning the raw text\<close>

lemma occurs_at_Nil: "occurs_at sub [] k \<longleftrightarrow> k = 0 \<and> sub = []"
  by (auto simp: occurs_at_def)

lemma occurs_at_Cons_0: "occurs_at sub (c # cs) 0 \<longleftrightarrow> prefix sub (c # cs)"
  by (simp add: occurs_at_def)

lemma occurs_at_Cons_Suc: "occurs_at sub (c # cs) (Suc k) \<longleftrightarrow> occurs_at sub cs k"
  by (simp add: occurs_at_def)

lemma first_at_Cons_0: "first_at sub (c # cs) 0 \<longleftrightarrow> prefix sub (c # cs)"
  by (simp add: first_at_def occurs_at_Cons_0)

lemma first_at_Cons_Suc:
  "first_at sub (c # cs) (Suc k) \<longleftrightarrow> \<not> prefix sub (c # cs) \<and> first_at sub cs k"
proof -
  have "(\<forall>j<Suc k. \<not> occurs_at sub (c # cs) j) \<longleftrightarrow>
        \<not> occurs_at sub (c # cs) 0 \<and> (\<forall>j<k. \<not> occurs_at sub (c # cs) (Suc j))"
    by (metis less_Suc_eq_0_disj)
  then show ?thesis
    by (auto simp: first_at_def occurs_at_Cons_0 occurs_at_Cons_Suc)
qed

lemma find_str_first_at: "find_str s sub = Some k \<longleftrightarrow> first_at sub s k"
proof (induction s arbitrary: k)
  case Nil
  show ?case by (auto simp: first_at_def occurs_at_Nil)
next
  case (Cons c cs)
  show ?case
  proof (cases k)
    case 0
    then show ?thesis by (auto simp: first_at_Cons_0)
  next
    case (Suc k')
    with Cons show ?thesis by (auto simp: first_at_Cons_Suc)
  qed
qed

lemma find_str_None_no_occurrence: "find_str s sub = None \<Longrightarrow> \<not> occurs_at sub s j"
proof (induction s arbitrary: j)
  case Nil
  then show ?case by (auto simp: occurs_at_Nil split: if_splits)
next
  case (Cons c cs)
  show ?case
  proof (cases j)
    case 0
    with Cons.prems show ?thesis by (auto simp: occurs_at_Cons_0 split: if_splits)
  next
    case (Suc j')
    with Cons show ?thesis by (auto simp: occurs_at_Cons_Suc split: if_splits)
  qed
qed

lemma find_str_absent: "find_str s sub = None \<longleftrightarrow> absent sub s"
proof
  assume "find_str s sub = None"
  then show "absent sub s" by (simp add: absent_def find_str_None_no_occurrence)
next
  assume a: "absent sub s"
  show "find_str s sub = None"
  proof (cases "find_str s sub")
    case None
    then show ?thesis .
  next
    case (Some k)
    then have "first_at sub s k" by (simp add: find_str_first_at)
    then have "occurs_at sub s k" by (simp add: first_at_def)
    with a show ?thesis by (auto simp: absent_def occurs_at_def)
  qed
qed

lemma scan_text_accept:
  "find_str (upper up response) SELECT_kw = Some i \<Longrightarrow>
   scan_text up response = accept_candidate up (cut_at_terminator terminators (drop i response))"
  by (simp add: scan_text_def accept_candidate_def Let_def)

text \<open>
  C6, as the code has it. For a response that is not JSON and whose upper-cased text
  contains \<open>SELECT\<close>, first at index \<open>i\<close>, the candidate is the response from index
  \<open>i\<close> on. The terminators are tried in a fixed order, not by position: if the
  candidate has a code fence it is cut at its first code fence, wherever its line
  breaks are; otherwise at its first double line feed; otherwise at its first double
  carriage-return line-feed; otherwise it is not cut. The cut candidate is stripped
  of surrounding white space, then of trailing commas, and returned if its
  upper-cased text starts with \<open>SELECT\<close>.
\<close>

theorem text_scan_cuts_by_priority:
  assumes "json_loads rt (strip response) = Inl JSONDecodeError"
    and "first_at SELECT_kw (upper (to_upper rt) response) i"
  shows
   "(first_at CODE_FENCE (drop i response) k \<longrightarrow>
       parse_ai_response rt response =
         Inr (accept_candidate (to_upper rt) (take k (drop i response)))) \<and>
    (absent CODE_FENCE (drop i response) \<and> first_at BLANK_LINE (drop i response) k \<longrightarrow>
       parse_ai_response rt response =
         Inr (accept_candidate (to_upper rt) (take k (drop i response)))) \<and>
    (absent CODE_FENCE (drop i response) \<and> absent BLANK_LINE (drop i response) \<and>
     first_at BLANK_LINE_CRLF (drop i response) k \<longrightarrow>
       parse_ai_response rt response =
         Inr (accept_candidate (to_upper rt) (take k (drop i response)))) \<and>
    (absent CODE_FENCE (drop i response) \<and> absent BLANK_LINE (drop i response) \<and>
     absent BLANK_LINE_CRLF (drop i response) \<longrightarrow>
       parse_ai_response rt response =
         Inr (accept_candidate (to_upper rt) (drop i response)))"
proof -
  from assms(2) have "find_str (upper (to_upper rt) response) SELECT_kw = Some i"
    by (simp add: find_str_first_at)
  with assms(1) have p: "parse_ai_response rt response =
      Inr (accept_candidate (to_upper rt) (cut_at_terminator terminators (drop i response)))"
    by (simp add: parse_ai_response_def scan_text_accept)
  show ?thesis
    unfolding p
    by (simp add: terminators_def find_str_first_at [symmetric] find_str_absent [symmetric])
qed

lemma example_rt_sel:
  "to_upper example_rt = ascii_upper"
  "json_loads example_rt = example_loads"
  "run_statement example_rt = example_store"
  "api_key example_rt = []"
  by (simp_all add: example_rt_def)

lemma fence_example_facts:
  "json_loads example_rt (strip response_fence_after_blank_line) = Inl JSONDecodeError"
  "find_str (upper ascii_upper response_fence_after_blank_line) SELECT_kw = Some 4"
  by (simp_all add: example_defs response_fence_after_blank_line_def CODE_FENCE_def str_defs)

lemma fence_example_positions:
  "find_str (drop 4 response_fence_after_blank_line) CODE_FENCE = Some 22"
  "find_str (drop 4 response_fence_after_blank_line) BLANK_LINE = Some 8"
  "find_str (drop 4 response_fence_after_blank_line) BLANK_LINE_CRLF = None"
  by (simp_all add: response_fence_after_blank_line_def CODE_FENCE_def BLANK_LINE_def
        BLANK_LINE_CRLF_def lit_def)

lemma fence_example_by_code:
  "parse_ai_response example_rt response_fence_after_blank_line =
     Inr (Some (lit ''SELECT 1'' @ [10, 10] @ lit ''or SELECT 2''), EXTRACTED_FROM_TEXT)"
  by (simp add: parse_ai_response_def scan_text_def terminators_def example_defs
        response_fence_after_blank_line_def CODE_FENCE_def BLANK_LINE_def str_defs)

lemma fence_example_by_spec:
  "accept_candidate ascii_upper (spec_cut_at_earliest (drop 4 response_fence_after_blank_line)) =
     (Some (lit ''SELECT 1''), EXTRACTED_FROM_TEXT)"
  by (simp add: accept_candidate_def spec_cut_at_earliest_def terminators_def
        response_fence_after_blank_line_def CODE_FENCE_def BLANK_LINE_def BLANK_LINE_CRLF_def
        str_defs)

theorem text_scan_cuts_by_priority_witness:
  "json_loads example_rt (strip response_fence_after_blank_line) = Inl JSONDecodeError \<and>
   first_at SELECT_kw (upper (to_upper example_rt) response_fence_after_blank_line) 4 \<and>
   first_at CODE_FENCE (drop 4 response_fence_after_blank_line) 22 \<and>
   parse_ai_response example_rt response_fence_after_blank_line =
     Inr (accept_candidate (to_upper example_rt) (take 22 (drop 4 response_fence_after_blank_line)))"
proof -
  have j: "json_loads example_rt (strip response_fence_after_blank_line) = Inl JSONDecodeError"
    by (rule fence_example_facts)
  have s: "first_at SELECT_kw (upper (to_upper example_rt) response_fence_after_blank_line) 4"
    by (simp add: find_str_first_at [symmetric] fence_example_facts example_rt_sel(1))
  have f: "first_at CODE_FENCE (drop 4 response_fence_after_blank_line) 22"
    by (simp add: find_str_first_at [symmetric] fence_example_facts fence_example_positions)
  from text_scan_cuts_by_priority [OF j s, of 22] j s f show ?thesis by blast
qed

text \<open>
  C6 as stated fails. In the response below the double line break comes first (index
  8 of the candidate) and the code fence later (index 22). Cutting at the earliest
  terminator gives \<open>SELECT 1\<close>; the parser cuts at the fence and returns the text up to
  it, line break included.
\<close>

theorem earliest_terminator_counterexample:
  "json_loads example_rt (strip response_fence_after_blank_line) = Inl JSONDecodeError \<and>
   first_at SELECT_kw (upper (to_upper example_rt) response_fence_after_blank_line) 4 \<and>
   first_at BLANK_LINE (drop 4 response_fence_after_blank_line) 8 \<and>
   first_at CODE_FENCE (drop 4 response_fence_after_blank_line) 22 \<and>
   accept_candidate (to_upper example_rt)
     (spec_cut_at_earliest (drop 4 response_fence_after_blank_line)) =
     (Some (lit ''SELECT 1''), EXTRACTED_FROM_TEXT) \<and>
   parse_ai_response example_rt response_fence_after_blank_line =
     Inr (Some (lit ''SELECT 1'' @ [10, 10] @ lit ''or SELECT 2''), EXTRACTED_FROM_TEXT)"
proof (intro conjI)
  show "json_loads example_rt (strip response_fence_after_blank_line) = Inl JSONDecodeError"
    by (rule fence_example_facts)
  show "first_at SELECT_kw (upper (to_upper example_rt) response_fence_after_blank_line) 4"
    by (simp add: find_str_first_at [symmetric] fence_example_facts example_rt_sel(1))
  show "first_at BLANK_LINE (drop 4 response_fence_after_blank_line) 8"
    by (simp add: find_str_first_at [symmetric] fence_example_facts fence_example_positions)
  show "first_at CODE_FENCE (drop 4 response_fence_after_blank_line) 22"
    by (simp add: find_str_first_at [symmetric] fence_example_facts fence_example_positions)
  show "accept_candidate (to_upper example_rt)
     (spec_cut_at_earliest (drop 4 response_fence_after_blank_line)) =
     (Some (lit ''SELECT 1''), EXTRACTED_FROM_TEXT)"
    by (simp add: example_rt_sel(1) fence_example_by_spec)
  show "parse_ai_response example_rt response_fence_after_blank_line =
     Inr (Some (lit ''SELECT 1'' @ [10, 10] @ lit ''or SELECT 2''), EXTRACTED_FROM_TEXT)"
    by (rule fence_example_by_code)
qed

section \<open>A structured response with an invalid sql field\<close>






section \<open>Looking up an introduction\<close>












end
